theory Spec2Isabelle
  imports Main "HOL-Library.Word"
begin

unbundle bit_operations_syntax

section \<open>JavaScript values used by the RCON client\<close>

text \<open>
  A JavaScript string is a sequence of 16-bit code units, a \<open>Buffer\<close> a sequence of
  bytes, and the numbers that reach the codec are integers.  \<open>lit\<close> writes a string
  literal of the source as a sequence of code units.
\<close>

type_synonym jsstring = "16 word list"
type_synonym buffer = "8 word list"

definition lit :: "string \<Rightarrow> jsstring" where
  "lit cs = map of_char cs"

text \<open>The exceptions the code can raise: a call through \<open>null\<close>, and a buffer access
  or an integer out of range.\<close>

datatype js_error = TypeError | RangeError

section \<open>Buffer primitives of node:buffer\<close>

text \<open>
  \<open>buf.subarray(start, end)\<close>: a negative index counts from the end, and both
  indices are clamped to the buffer, so it never raises.
\<close>

definition clamp_index :: "int \<Rightarrow> nat \<Rightarrow> nat" where
  "clamp_index i len = (if i < 0 then nat (max (int len + i) 0) else min (nat i) len)"

definition subarray :: "buffer \<Rightarrow> int \<Rightarrow> int \<Rightarrow> buffer" where
  "subarray buf start end =
     (let len = length buf;
          s = clamp_index start len;
          e = clamp_index end len
      in take (e - s) (drop s buf))"

text \<open>
  \<open>buf.readInt32LE()\<close> at offset 0: a \<open>RangeError\<close> when the buffer has fewer than
  four bytes, else the two's complement value of the first four bytes, lowest first.
\<close>

definition readInt32LE :: "buffer \<Rightarrow> js_error + int" where
  "readInt32LE buf =
     (case buf of
        b0 # b1 # b2 # b3 # _ \<Rightarrow>
          Inr (uint b0 + uint b1 * 2 ^ 8 + uint b2 * 2 ^ 16 + sint b3 * 2 ^ 24)
      | _ \<Rightarrow> Inl RangeError)"

text \<open>
  \<open>Buffer.alloc(4, 0).writeInt32LE(value)\<close>: a \<open>RangeError\<close> when the value is not
  a 32-bit signed integer, else its four bytes, lowest first.
\<close>

definition int32_bytes :: "int \<Rightarrow> buffer" where
  "int32_bytes v = [word_of_int v, word_of_int (v div 2 ^ 8),
                    word_of_int (v div 2 ^ 16), word_of_int (v div 2 ^ 24)]"

definition writeInt32LE :: "int \<Rightarrow> js_error + buffer" where
  "writeInt32LE v =
     (if v < - (2 ^ 31) \<or> 2 ^ 31 - 1 < v then Inl RangeError
      else Inr (int32_bytes v))"

text \<open>
  \<open>Buffer.from(s, 'ascii')\<close> keeps the low byte of every code unit (as \<open>'latin1'\<close>
  does); \<open>buf.toString('ascii')\<close> clears the top bit of every byte.
\<close>

definition from_ascii :: "jsstring \<Rightarrow> buffer" where
  "from_ascii s = map ucast s"

definition toString_ascii :: "buffer \<Rightarrow> jsstring" where
  "toString_ascii buf = map (\<lambda>b. ucast (b AND 0x7F)) buf"

section \<open>The codec of index.js\<close>

definition packetId :: int where
  "packetId = 1337"

definition AUTH :: int where "AUTH = 3"
definition AUTH_RESPONSE :: int where "AUTH_RESPONSE = 2"
definition EXEC_COMMAND :: int where "EXEC_COMMAND = 2"
definition RESPONSE_VALUE :: int where "RESPONSE_VALUE = 0"

definition PACKET_TYPE :: "int set" where
  "PACKET_TYPE = {AUTH, AUTH_RESPONSE, EXEC_COMMAND, RESPONSE_VALUE}"

definition getPayload :: "buffer \<Rightarrow> js_error + jsstring" where
  "getPayload buffer =
     (case readInt32LE (subarray buffer 0 4) of
        Inl e \<Rightarrow> Inl e
      | Inr size' \<Rightarrow> Inr (toString_ascii (subarray buffer 12 (12 + (size' - 10)))))"

definition getId :: "buffer \<Rightarrow> js_error + int" where
  "getId buffer = readInt32LE (subarray buffer 4 8)"

definition getType :: "buffer \<Rightarrow> js_error + int" where
  "getType buffer = readInt32LE (subarray buffer 8 12)"

definition createPacket :: "int \<Rightarrow> jsstring \<Rightarrow> js_error + buffer" where
  "createPacket type payload =
     (let nullBuffer = [0 :: 8 word] in
      case writeInt32LE packetId of
        Inl e \<Rightarrow> Inl e
      | Inr idBuffer \<Rightarrow>
     (case writeInt32LE type of
        Inl e \<Rightarrow> Inl e
      | Inr typeBuffer \<Rightarrow>
     (let payloadBuffer = from_ascii payload;
          commandBuffer = idBuffer @ typeBuffer @ payloadBuffer @ nullBuffer @ nullBuffer
      in case writeInt32LE (int (length commandBuffer)) of
           Inl e \<Rightarrow> Inl e
         | Inr sizeBuffer \<Rightarrow> Inr (sizeBuffer @ commandBuffer))))"

text \<open>
  An ASCII string has only code units below 128.  \<open>fits_int32\<close> is a payload whose
  packet size, its length plus 10, is a 32-bit signed integer; every string a JavaScript
  engine can hold is one, its length being far below \<open>2 ^ 31\<close>.
\<close>

definition is_ascii :: "jsstring \<Rightarrow> bool" where
  "is_ascii s = (\<forall>c \<in> set s. c < 128)"

definition fits_int32 :: "jsstring \<Rightarrow> bool" where
  "fits_int32 s = (int (length s) + 10 \<le> 2 ^ 31 - 1)"

definition is_int32 :: "int \<Rightarrow> bool" where
  "is_int32 v = (- (2 ^ 31) \<le> v \<and> v \<le> 2 ^ 31 - 1)"

section \<open>The session of index.js\<close>

text \<open>
  A promise is pending, fulfilled with a value or rejected with a reason; settling a
  promise that is no longer pending does nothing.  The values the client settles its
  promises with: \<open>undefined\<close>, a string, or an exception raised inside a promise
  executor.
\<close>

datatype jsval = Undefined | Str jsstring | Exn js_error

datatype promise_state = Pending | Fulfilled jsval | Rejected jsval

text \<open>
  The transport is the socket of \<open>net.createConnection(port, host)\<close>.  The model
  keeps what the client does to it: the buffers passed to \<open>write\<close>, in order, and
  whether \<open>destroy\<close> was called.
\<close>

record socket =
  sock_host :: jsstring
  sock_port :: int
  writes :: "buffer list"
  destroyed :: bool

text \<open>
  The variables of the closure \<open>RCON()\<close>, \<open>None\<close> for \<open>null\<close>.  A \<open>resolve\<close>
  or \<open>reject\<close> function is the number of the promise it settles.  \<open>promises\<close> holds
  the state of every promise created so far and \<open>nextPromise\<close> numbers the next one.
\<close>

record session =
  client :: "socket option"
  isAuthenticated :: bool
  isAuthenticating :: bool
  rconPassword :: "jsstring option"
  connectResolve :: "nat option"
  connectReject :: "nat option"
  sendResolve :: "nat option"
  sendReject :: "nat option"
  promises :: "nat \<rightharpoonup> promise_state"
  nextPromise :: nat

definition RCON :: session where
  "RCON = \<lparr>client = None, isAuthenticated = False, isAuthenticating = False,
           rconPassword = None, connectResolve = None, connectReject = None,
           sendResolve = None, sendReject = None, promises = Map.empty, nextPromise = 0\<rparr>"

definition resolve_promise :: "nat \<Rightarrow> jsval \<Rightarrow> session \<Rightarrow> session" where
  "resolve_promise p v s =
     (if promises s p = Some Pending then s\<lparr>promises := (promises s)(p \<mapsto> Fulfilled v)\<rparr>
      else s)"

definition reject_promise :: "nat \<Rightarrow> jsval \<Rightarrow> session \<Rightarrow> session" where
  "reject_promise p v s =
     (if promises s p = Some Pending then s\<lparr>promises := (promises s)(p \<mapsto> Rejected v)\<rparr>
      else s)"

text \<open>\<open>new Promise(...)\<close>: the new promise and the state that holds it.\<close>

definition new_promise :: "session \<Rightarrow> nat \<times> session" where
  "new_promise s =
     (nextPromise s,
      s\<lparr>promises := (promises s)(nextPromise s \<mapsto> Pending),
        nextPromise := nextPromise s + 1\<rparr>)"

text \<open>\<open>client.write(packet)\<close>: a \<open>TypeError\<close> when \<open>client\<close> is \<open>null\<close>.\<close>

definition client_write :: "buffer \<Rightarrow> session \<Rightarrow> session \<times> js_error option" where
  "client_write packet s =
     (case client s of
        None \<Rightarrow> (s, Some TypeError)
      | Some c \<Rightarrow> (s\<lparr>client := Some (c\<lparr>writes := writes c @ [packet]\<rparr>)\<rparr>, None))"

text \<open>
  An event handler returns the state it leaves and the exception that escaped it, if
  any: the assignments made before a \<open>throw\<close> stay.  In \<open>handleConnect\<close> a \<open>null\<close>
  password makes \<open>Buffer.from\<close> raise a \<open>TypeError\<close>.
\<close>

definition handleConnect :: "session \<Rightarrow> session \<times> js_error option" where
  "handleConnect s =
     (if isAuthenticated s then (s, None)
      else
        let s1 = s\<lparr>isAuthenticating := True\<rparr> in
        case rconPassword s1 of
          None \<Rightarrow> (s1, Some TypeError)
        | Some password \<Rightarrow>
            (case createPacket AUTH password of
               Inl e \<Rightarrow> (s1, Some e)
             | Inr authPacket \<Rightarrow> client_write authPacket s1))"

definition handleClose :: "session \<Rightarrow> bool \<Rightarrow> session \<times> js_error option" where
  "handleClose s hasError =
     (if hasError then
        (case sendReject s of
           None \<Rightarrow> (s, None)
         | Some p \<Rightarrow> (reject_promise p (Str (lit ''Unable to connect to remote host'')) s, None))
      else (s, None))"

text \<open>The argument is \<open>error.errno\<close>, \<open>None\<close> when the error has none.\<close>

definition handleError :: "session \<Rightarrow> int option \<Rightarrow> session \<times> js_error option" where
  "handleError s errno =
     (if errno = Some (- 4078) then
        (case connectReject s of
           None \<Rightarrow> (s, Some TypeError)
         | Some p \<Rightarrow> (reject_promise p (Str (lit ''Remote host refused connection'')) s, None))
      else if errno = Some (- 3008) then
        (case connectReject s of
           None \<Rightarrow> (s, Some TypeError)
         | Some p \<Rightarrow> (reject_promise p (Str (lit ''Unable to connect to remote host'')) s, None))
      else if errno = Some (- 4039) then
        (case connectReject s of
           None \<Rightarrow> (s, Some TypeError)
         | Some p \<Rightarrow>
             (reject_promise p (Str (lit ''Connection to remote host timed out'')) s, None))
      else (s, None))"

definition handleAuthResponse :: "session \<Rightarrow> buffer \<Rightarrow> session \<times> js_error option" where
  "handleAuthResponse s buffer =
     (let s1 = s\<lparr>isAuthenticating := False\<rparr> in
      case getId buffer of
        Inl e \<Rightarrow> (s1, Some e)
      | Inr i \<Rightarrow>
          if i \<noteq> packetId then
            (let s2 = s1\<lparr>isAuthenticated := False\<rparr> in
             case connectReject s2 of
               None \<Rightarrow> (s2, Some TypeError)
             | Some p \<Rightarrow> (reject_promise p (Str (lit ''RCON authentication failed'')) s2, None))
          else
            (let s2 = s1\<lparr>isAuthenticated := True\<rparr> in
             case connectResolve s2 of
               None \<Rightarrow> (s2, Some TypeError)
             | Some p \<Rightarrow> (resolve_promise p Undefined s2, None)))"

text \<open>\<open>sendResolve?.(getPayload(buffer))\<close>: when \<open>sendResolve\<close> is \<open>null\<close> the
  argument is not evaluated.\<close>

definition handleDataResponse :: "session \<Rightarrow> buffer \<Rightarrow> session \<times> js_error option" where
  "handleDataResponse s buffer =
     (case sendResolve s of
        None \<Rightarrow> (s, None)
      | Some p \<Rightarrow>
          (case getPayload buffer of
             Inl e \<Rightarrow> (s, Some e)
           | Inr payload \<Rightarrow> (resolve_promise p (Str payload) s, None)))"

definition handleData :: "session \<Rightarrow> buffer \<Rightarrow> session \<times> js_error option" where
  "handleData s buffer =
     (if isAuthenticating s then
        (case handleAuthResponse s buffer of
           (s1, Some e) \<Rightarrow> (s1, Some e)
         | (s1, None) \<Rightarrow> handleDataResponse s1 buffer)
      else handleDataResponse s buffer)"

text \<open>
  The three operations return their promise and the new state.  An exception raised
  inside a promise executor rejects the promise, which does nothing when the promise is
  already settled.

  \<open>net.createConnection(port, host)\<close> raises a \<open>RangeError\<close> for a port outside
  0..65535.  In \<open>connect\<close> that happens after the two functions of the promise are
  stored and before \<open>client\<close> and \<open>rconPassword\<close> are assigned and the handlers
  registered, so these keep what they had and the promise is rejected at once.
\<close>

definition valid_port :: "int \<Rightarrow> bool" where
  "valid_port port = (0 \<le> port \<and> port \<le> 65535)"

definition connect :: "session \<Rightarrow> jsstring \<Rightarrow> int \<Rightarrow> jsstring \<Rightarrow> nat \<times> session" where
  "connect s host port password =
     (let (p, s0) = new_promise s;
          s1 = s0\<lparr>connectReject := Some p, connectResolve := Some p\<rparr>
      in if \<not> valid_port port then (p, reject_promise p (Exn RangeError) s1)
         else
           (p, s1\<lparr>client := Some \<lparr>sock_host = host, sock_port = port, writes = [],
                                    destroyed = False\<rparr>,
                  rconPassword := Some password\<rparr>))"

definition disconnect :: "session \<Rightarrow> nat \<times> session" where
  "disconnect s =
     (let (p, s0) = new_promise s in
      case client s0 of
        None \<Rightarrow> (p, reject_promise p (Exn TypeError) s0)
      | Some c \<Rightarrow>
          (p, resolve_promise p Undefined
                (s0\<lparr>client := Some (c\<lparr>destroyed := True\<rparr>),
                    isAuthenticated := False,
                    isAuthenticating := False\<rparr>)))"

definition send :: "session \<Rightarrow> jsstring \<Rightarrow> nat \<times> session" where
  "send s command =
     (let (p, s0) = new_promise s;
          s1 = s0\<lparr>sendReject := Some p, sendResolve := Some p\<rparr>;
          s2 = (if \<not> isAuthenticated s1
                then reject_promise p (Str (lit ''RCON client not authenticated'')) s1
                else s1)
      in case createPacket EXEC_COMMAND command of
           Inl e \<Rightarrow> (p, reject_promise p (Exn e) s2)
         | Inr commandPacket \<Rightarrow>
             (case client_write commandPacket s2 of
                (s3, Some e) \<Rightarrow> (p, reject_promise p (Exn e) s3)
              | (s3, None) \<Rightarrow> (p, s3)))"

text \<open>
  The events of the transport, delivered to the handlers that \<open>connect\<close> registers with
  \<open>client.on\<close>.
\<close>

datatype event = EvConnect | EvClose bool | EvError "int option" | EvData buffer

fun deliver :: "session \<Rightarrow> event \<Rightarrow> session \<times> js_error option" where
  "deliver s EvConnect = handleConnect s"
| "deliver s (EvClose hasError) = handleClose s hasError"
| "deliver s (EvError errno) = handleError s errno"
| "deliver s (EvData buffer) = handleData s buffer"

text \<open>
  The states a session can be in: it starts as \<open>RCON\<close>, the caller invokes the three
  operations in any order, and once \<open>connect\<close> has created a socket and registered the
  handlers, events arrive in any order.
\<close>

inductive reachable :: "session \<Rightarrow> bool" where
  reach_init: "reachable RCON"
| reach_connect: "reachable s \<Longrightarrow> reachable (snd (connect s host port password))"
| reach_send: "reachable s \<Longrightarrow> reachable (snd (send s command))"
| reach_disconnect: "reachable s \<Longrightarrow> reachable (snd (disconnect s))"
| reach_event: "reachable s \<Longrightarrow> client s \<noteq> None \<Longrightarrow> reachable (fst (deliver s ev))"

text \<open>
  What holds in every reachable state: the two functions of a promise go together,
  they belong to promises already created, the connect and the send promise differ,
  and a session with a socket, or one that is authenticating, has a connect promise.
\<close>

definition session_inv :: "session \<Rightarrow> bool" where
  "session_inv s =
     (connectResolve s = connectReject s \<and> sendResolve s = sendReject s
      \<and> (case connectResolve s of None \<Rightarrow> True | Some c \<Rightarrow> c < nextPromise s)
      \<and> (case sendResolve s of None \<Rightarrow> True | Some p \<Rightarrow> p < nextPromise s)
      \<and> (connectResolve s \<noteq> None \<longrightarrow> connectResolve s \<noteq> sendResolve s)
      \<and> (client s \<noteq> None \<longrightarrow> connectResolve s \<noteq> None)
      \<and> (isAuthenticating s \<longrightarrow> connectResolve s \<noteq> None)
      \<and> \<not> (isAuthenticated s \<and> isAuthenticating s))"

section \<open>Example sessions\<close>

text \<open>
  A server at 127.0.0.1:27015 with the password "secret".  \<open>reply_ok\<close> is an
  AUTH_RESPONSE packet with the id 1337, \<open>reply_failed\<close> one with the id -1,
  \<open>short_reply\<close> the first six bytes of \<open>reply_ok\<close>, and \<open>reply_info\<close> a RESPONSE_VALUE
  packet with the payload "info-response".
\<close>

definition reply_ok :: buffer where
  "reply_ok = [10, 0, 0, 0, 57, 5, 0, 0, 2, 0, 0, 0, 0, 0]"


definition short_reply :: buffer where
  "short_reply = [10, 0, 0, 0, 57, 5]"

definition reply_info :: buffer where
  "reply_info = [23, 0, 0, 0, 57, 5, 0, 0, 0, 0, 0, 0]
                  @ from_ascii (lit ''info-response'') @ [0, 0]"

text \<open>
  The session after \<open>connect\<close> and the connect event (authenticating), after
  \<open>reply_ok\<close> (ready), after \<open>send("info")\<close> (a pending send), and after a
  \<open>disconnect\<close>, a second \<open>connect\<close> and its connect event (authenticating again,
  the send still pending).
\<close>

definition session_authenticating :: session where
  "session_authenticating =
     fst (handleConnect (snd (connect RCON (lit ''127.0.0.1'') 27015 (lit ''secret''))))"

definition session_ready :: session where
  "session_ready = fst (handleData session_authenticating reply_ok)"

definition session_sent :: session where
  "session_sent = snd (send session_ready (lit ''info''))"

definition session_reconnecting :: session where
  "session_reconnecting =
     fst (handleConnect (snd (connect (snd (disconnect session_sent))
                                (lit ''127.0.0.1'') 27015 (lit ''secret''))))"

section \<open>Properties of the codec\<close>

lemma ascii_byte_roundtrip:
  assumes "c < 128"
  shows "ucast ((ucast (c :: 16 word) :: 8 word) AND 0x7F) = c"
proof -
  have m: "(0x7F :: 8 word) = mask 7"
    by (simp add: mask_eq_exp_minus_1)
  from assms have "c < 2 ^ 7" by simp
  then have t: "take_bit 7 c = c"
    by (simp add: mod_word_less take_bit_eq_mod)
  have "ucast ((ucast c :: 8 word) AND mask 7) = take_bit 7 c"
    by (rule bit_word_eqI) (auto simp: bit_simps)
  with t m show ?thesis by simp
qed

lemma toString_from_ascii: "is_ascii s \<Longrightarrow> toString_ascii (from_ascii s) = s"
  unfolding is_ascii_def toString_ascii_def from_ascii_def
  by (induction s) (simp_all add: ascii_byte_roundtrip)

lemma length_from_ascii: "length (from_ascii s) = length s"
  by (simp add: from_ascii_def)

lemma base256_digits:
  "v mod 256 + v div 256 mod 256 * 256 + v div 65536 mod 256 * 65536 +
     v div 16777216 * 16777216 = (v :: int)"
proof -
  have a: "v div 65536 = v div 256 div 256" "v div 16777216 = v div 256 div 256 div 256"
    by (simp_all add: div_mult2_eq [symmetric])
  have "v = v mod 256 + 256 * (v div 256)"
    by simp
  moreover have "v div 256 = v div 256 mod 256 + 256 * (v div 256 div 256)"
    by simp
  moreover have "v div 256 div 256 =
      v div 256 div 256 mod 256 + 256 * (v div 256 div 256 div 256)"
    by simp
  ultimately show ?thesis
    unfolding a by linarith
qed

lemma uint_byte: "uint (word_of_int k :: 8 word) = k mod 256"
  by (simp add: uint_word_of_int_eq take_bit_eq_mod)

lemma sint_byte: "- 128 \<le> k \<Longrightarrow> k < 128 \<Longrightarrow> sint (word_of_int k :: 8 word) = k"
  by (simp add: sint_sbintrunc' signed_take_bit_int_eq_self_iff)

lemma length_int32_bytes: "length (int32_bytes v) = 4"
  by (simp add: int32_bytes_def)

lemma readInt32LE_int32_bytes:
  assumes "is_int32 v"
  shows "readInt32LE (int32_bytes v @ rest) = Inr v"
proof -
  from assms have "- 128 \<le> v div 2 ^ 24" "v div 2 ^ 24 < 128"
    unfolding is_int32_def by auto
  then show ?thesis
    by (simp add: readInt32LE_def int32_bytes_def uint_byte sint_byte base256_digits)
qed

lemma writeInt32LE_ok: "is_int32 v \<Longrightarrow> writeInt32LE v = Inr (int32_bytes v)"
  by (simp add: writeInt32LE_def is_int32_def)

lemma writeInt32LE_throws: "\<not> is_int32 v \<Longrightarrow> writeInt32LE v = Inl RangeError"
  by (auto simp add: writeInt32LE_def is_int32_def)

lemma subarray_nonneg:
  "0 \<le> s \<Longrightarrow> 0 \<le> e \<Longrightarrow> subarray buf s e = take (nat e - nat s) (drop (nat s) buf)"
  by (simp add: subarray_def clamp_index_def Let_def min_def)

lemma is_int32_packetId: "is_int32 packetId"
  by (simp add: is_int32_def packetId_def)

lemma PACKET_TYPE_int32: "t \<in> PACKET_TYPE \<Longrightarrow> is_int32 t"
  by (auto simp: PACKET_TYPE_def AUTH_def AUTH_RESPONSE_def EXEC_COMMAND_def
      RESPONSE_VALUE_def is_int32_def)

lemma createPacket_ok:
  assumes "is_int32 t" "fits_int32 p"
  shows "createPacket t p =
     Inr (int32_bytes (int (length p) + 10) @ int32_bytes packetId @ int32_bytes t
            @ from_ascii p @ [0, 0])"
proof -
  from assms(2) have "is_int32 (int (length p) + 10)"
    by (simp add: fits_int32_def is_int32_def)
  then have "writeInt32LE (10 + int (length p)) = Inr (int32_bytes (int (length p) + 10))"
    by (simp add: writeInt32LE_ok add.commute)
  then show ?thesis
    using assms(1)
    by (simp add: createPacket_def writeInt32LE_ok is_int32_packetId length_int32_bytes
        length_from_ascii)
qed

lemma createPacket_too_long:
  assumes "is_int32 t" "\<not> fits_int32 p"
  shows "createPacket t p = Inl RangeError"
proof -
  from assms(2) have "\<not> is_int32 (10 + int (length p))"
    by (simp add: fits_int32_def is_int32_def)
  then have "writeInt32LE (10 + int (length p)) = Inl RangeError"
    by (rule writeInt32LE_throws)
  then show ?thesis
    using assms(1)
    by (simp add: createPacket_def writeInt32LE_ok is_int32_packetId length_int32_bytes
        length_from_ascii)
qed

lemma getId_packet:
  "is_int32 i \<Longrightarrow> getId (int32_bytes n @ int32_bytes i @ rest) = Inr i"
  by (simp add: getId_def subarray_nonneg length_int32_bytes
        readInt32LE_int32_bytes [where rest = "[]", simplified])

lemma getType_packet:
  "is_int32 t \<Longrightarrow> getType (int32_bytes n @ int32_bytes i @ int32_bytes t @ rest) = Inr t"
  by (simp add: getType_def subarray_nonneg length_int32_bytes
        readInt32LE_int32_bytes [where rest = "[]", simplified])

lemma getPayload_packet:
  assumes "is_int32 (int (length body) + 10)"
  shows "getPayload (int32_bytes (int (length body) + 10) @ int32_bytes i @ int32_bytes t
           @ body @ rest) = Inr (toString_ascii body)"
proof -
  let ?b = "int32_bytes (int (length body) + 10) @ int32_bytes i @ int32_bytes t @ body @ rest"
  have "subarray ?b 0 4 = int32_bytes (int (length body) + 10)"
    by (simp add: subarray_nonneg length_int32_bytes)
  then have "readInt32LE (subarray ?b 0 4) = Inr (int (length body) + 10)"
    using readInt32LE_int32_bytes [OF assms, of "[]"] by simp
  moreover have "subarray ?b 12 (12 + (int (length body) + 10 - 10)) = body"
    by (simp add: subarray_nonneg length_int32_bytes)
  ultimately show ?thesis
    by (simp add: getPayload_def)
qed

text \<open>
  Claim C1.  For every ASCII payload and every defined packet type, the packet that
  \<open>createPacket\<close> builds decodes to the fixed id 1337, the type and the payload.
\<close>

theorem createPacket_roundtrip:
  assumes "is_ascii p" and "fits_int32 p" and "t \<in> PACKET_TYPE"
  shows "\<exists>b. createPacket t p = Inr b \<and> getId b = Inr packetId \<and> packetId = 1337
           \<and> getType b = Inr t \<and> getPayload b = Inr p"
proof -
  let ?b = "int32_bytes (int (length p) + 10) @ int32_bytes packetId @ int32_bytes t
              @ from_ascii p @ [0, 0]"
  from assms(3) have t: "is_int32 t"
    by (rule PACKET_TYPE_int32)
  from assms(2) have n: "is_int32 (int (length (from_ascii p)) + 10)"
    by (simp add: fits_int32_def is_int32_def length_from_ascii)
  have "createPacket t p = Inr ?b"
    using t assms(2) by (rule createPacket_ok)
  moreover have "getId ?b = Inr packetId"
    using is_int32_packetId by (rule getId_packet)
  moreover have "getType ?b = Inr t"
    using t by (rule getType_packet)
  moreover have "getPayload ?b = Inr p"
    using getPayload_packet [OF n, of packetId t "[0, 0]"] assms(1)
    by (simp add: toString_from_ascii length_from_ascii)
  ultimately show ?thesis
    by (simp add: packetId_def)
qed

theorem createPacket_roundtrip_witness:
  "is_ascii (lit ''status'') \<and> fits_int32 (lit ''status'') \<and> EXEC_COMMAND \<in> PACKET_TYPE \<and>
   (\<exists>b. createPacket EXEC_COMMAND (lit ''status'') = Inr b \<and> getId b = Inr packetId
      \<and> packetId = 1337 \<and> getType b = Inr EXEC_COMMAND \<and> getPayload b = Inr (lit ''status''))"
proof -
  have a: "is_ascii (lit ''status'')"
    by (simp add: is_ascii_def lit_def)
  have f: "fits_int32 (lit ''status'')"
    by (simp add: fits_int32_def lit_def)
  have t: "EXEC_COMMAND \<in> PACKET_TYPE"
    by (simp add: PACKET_TYPE_def)
  from a f t createPacket_roundtrip [OF a f t] show ?thesis
    by simp
qed

text \<open>
  Claim C2.  The first four bytes of a packet built by \<open>createPacket\<close>, read as a
  little-endian 32-bit integer, are the length of the packet minus 4, which is 10 plus
  the length of the payload; the payload starts at byte 12 and exactly two null bytes
  follow it.
\<close>

theorem createPacket_size_invariant:
  assumes "is_int32 t" and "fits_int32 p"
  shows "\<exists>b. createPacket t p = Inr b
           \<and> readInt32LE (subarray b 0 4) = Inr (int (length b) - 4)
           \<and> int (length b) - 4 = 10 + int (length p)
           \<and> take (length p) (drop 12 b) = from_ascii p
           \<and> drop (12 + length p) b = [0, 0]"
proof -
  let ?b = "int32_bytes (int (length p) + 10) @ int32_bytes packetId @ int32_bytes t
              @ from_ascii p @ [0, 0]"
  from assms(2) have n: "is_int32 (int (length p) + 10)"
    by (simp add: fits_int32_def is_int32_def)
  have c: "createPacket t p = Inr ?b"
    using assms by (rule createPacket_ok)
  have l: "int (length ?b) - 4 = 10 + int (length p)"
    by (simp add: length_int32_bytes length_from_ascii)
  have "subarray ?b 0 4 = int32_bytes (int (length p) + 10)"
    by (simp add: subarray_nonneg length_int32_bytes)
  then have r: "readInt32LE (subarray ?b 0 4) = Inr (int (length ?b) - 4)"
    using readInt32LE_int32_bytes [OF n, of "[]"] l by (simp add: add.commute)
  have p: "take (length p) (drop 12 ?b) = from_ascii p"
    by (simp add: length_int32_bytes length_from_ascii)
  have z: "drop (12 + length p) ?b = [0, 0]"
    by (simp add: length_int32_bytes length_from_ascii)
  from c l r p z show ?thesis
    by simp
qed

theorem createPacket_size_invariant_witness:
  "is_int32 AUTH \<and> fits_int32 (lit ''secret'') \<and>
   (\<exists>b. createPacket AUTH (lit ''secret'') = Inr b
           \<and> readInt32LE (subarray b 0 4) = Inr (int (length b) - 4)
           \<and> int (length b) - 4 = 10 + int (length (lit ''secret''))
           \<and> take (length (lit ''secret'')) (drop 12 b) = from_ascii (lit ''secret'')
           \<and> drop (12 + length (lit ''secret'')) b = [0, 0])"
proof -
  have t: "is_int32 AUTH"
    by (simp add: is_int32_def AUTH_def)
  have f: "fits_int32 (lit ''secret'')"
    by (simp add: fits_int32_def lit_def)
  from t f createPacket_size_invariant [OF t f] show ?thesis
    by simp
qed

section \<open>Properties of the session\<close>

subsection \<open>When decoding raises\<close>







subsection \<open>The invariant of the reachable states\<close>

lemma settle_fields [simp]:
  "client (resolve_promise p v s) = client s"
  "isAuthenticated (resolve_promise p v s) = isAuthenticated s"
  "isAuthenticating (resolve_promise p v s) = isAuthenticating s"
  "rconPassword (resolve_promise p v s) = rconPassword s"
  "connectResolve (resolve_promise p v s) = connectResolve s"
  "connectReject (resolve_promise p v s) = connectReject s"
  "sendResolve (resolve_promise p v s) = sendResolve s"
  "sendReject (resolve_promise p v s) = sendReject s"
  "nextPromise (resolve_promise p v s) = nextPromise s"
  "client (reject_promise p v s) = client s"
  "isAuthenticated (reject_promise p v s) = isAuthenticated s"
  "isAuthenticating (reject_promise p v s) = isAuthenticating s"
  "rconPassword (reject_promise p v s) = rconPassword s"
  "connectResolve (reject_promise p v s) = connectResolve s"
  "connectReject (reject_promise p v s) = connectReject s"
  "sendResolve (reject_promise p v s) = sendResolve s"
  "sendReject (reject_promise p v s) = sendReject s"
  "nextPromise (reject_promise p v s) = nextPromise s"
  by (simp_all add: resolve_promise_def reject_promise_def)

lemma inv_settle [simp]:
  "session_inv (resolve_promise p v s) = session_inv s"
  "session_inv (reject_promise p v s) = session_inv s"
  by (simp_all add: session_inv_def cong: option.case_cong)

lemma inv_RCON: "session_inv RCON"
  by (simp add: session_inv_def RCON_def)

lemma inv_connect: "session_inv s \<Longrightarrow> session_inv (snd (connect s host port password))"
  by (auto simp: session_inv_def connect_def new_promise_def Let_def split: option.splits)

lemma inv_send: "session_inv s \<Longrightarrow> session_inv (snd (send s command))"
  by (auto simp: session_inv_def send_def new_promise_def client_write_def Let_def
      split: option.splits sum.splits prod.splits if_splits)

lemma inv_disconnect: "session_inv s \<Longrightarrow> session_inv (snd (disconnect s))"
  by (auto simp: session_inv_def disconnect_def new_promise_def split: option.splits)

lemma inv_handleConnect:
  "session_inv s \<Longrightarrow> client s \<noteq> None \<Longrightarrow> session_inv (fst (handleConnect s))"
  by (auto simp: session_inv_def handleConnect_def client_write_def Let_def
      split: option.splits sum.splits)

lemma inv_handleClose: "session_inv s \<Longrightarrow> session_inv (fst (handleClose s hasError))"
  by (auto simp: handleClose_def split: option.splits)

lemma inv_handleError: "session_inv s \<Longrightarrow> session_inv (fst (handleError s errno))"
  by (auto simp: handleError_def split: option.splits)

lemma inv_handleDataResponse: "session_inv s \<Longrightarrow> session_inv (fst (handleDataResponse s b))"
  by (auto simp: handleDataResponse_def split: option.splits sum.splits)

lemma inv_handleAuthResponse: "session_inv s \<Longrightarrow> session_inv (fst (handleAuthResponse s b))"
  by (auto simp: handleAuthResponse_def session_inv_def Let_def split: option.splits sum.splits)

lemma inv_handleData: "session_inv s \<Longrightarrow> session_inv (fst (handleData s b))"
proof -
  assume i: "session_inv s"
  show ?thesis
  proof (cases "handleAuthResponse s b")
    case (Pair s1 e)
    with inv_handleAuthResponse [OF i, of b] have "session_inv s1" by simp
    then show ?thesis
      using Pair i by (cases e) (simp_all add: handleData_def inv_handleDataResponse)
  qed
qed

lemma inv_deliver:
  "session_inv s \<Longrightarrow> client s \<noteq> None \<Longrightarrow> session_inv (fst (deliver s ev))"
  by (cases ev) (simp_all add: inv_handleConnect inv_handleClose inv_handleError inv_handleData)

lemma reachable_inv: "reachable s \<Longrightarrow> session_inv s"
  by (induction rule: reachable.induct)
    (simp_all add: inv_RCON inv_connect inv_send inv_disconnect inv_deliver)

subsection \<open>The authentication handshake\<close>



text \<open>\<open>connect\<close> on a session that is not authenticated, followed by the connect event.\<close>

lemma connect_valid_port:
  assumes "valid_port port"
  shows "connect s host port password =
     (nextPromise s,
      s\<lparr>promises := (promises s)(nextPromise s \<mapsto> Pending),
        nextPromise := nextPromise s + 1,
        connectReject := Some (nextPromise s), connectResolve := Some (nextPromise s),
        client := Some \<lparr>sock_host = host, sock_port = port, writes = [],
                         destroyed = False\<rparr>,
        rconPassword := Some password\<rparr>)"
  using assms by (simp add: connect_def new_promise_def)

lemma connect_bad_port:
  assumes "\<not> valid_port port"
  shows "connect s host port password =
     (nextPromise s,
      s\<lparr>promises := (promises s)(nextPromise s \<mapsto> Rejected (Exn RangeError)),
        nextPromise := nextPromise s + 1,
        connectReject := Some (nextPromise s), connectResolve := Some (nextPromise s)\<rparr>)"
  using assms by (simp add: connect_def new_promise_def reject_promise_def)






subsection \<open>Sending a command\<close>

lemma handleData_ready:
  assumes "\<not> isAuthenticating s" and "sendResolve s = Some p"
    and "promises s p = Some Pending" and "getPayload b = Inr v"
  shows "handleData s b = (s\<lparr>promises := (promises s)(p \<mapsto> Fulfilled (Str v))\<rparr>, None)"
  using assms by (simp add: handleData_def handleDataResponse_def resolve_promise_def)

lemma send_authenticated:
  assumes "isAuthenticated s" and "client s = Some sock" and "fits_int32 command"
    and "send s command = (p, s1)"
  shows "sendResolve s1 = Some p \<and> promises s1 p = Some Pending
     \<and> isAuthenticating s1 = isAuthenticating s
     \<and> (\<exists>commandPacket. createPacket EXEC_COMMAND command = Inr commandPacket
           \<and> client s1 = Some (sock\<lparr>writes := writes sock @ [commandPacket]\<rparr>))"
proof -
  have t: "is_int32 EXEC_COMMAND"
    by (simp add: is_int32_def EXEC_COMMAND_def)
  obtain pkt where pkt: "createPacket EXEC_COMMAND command = Inr pkt"
    using createPacket_ok [OF t assms(3)] by simp
  from assms(4) show ?thesis
    using assms(1,2) pkt
    by (auto simp: send_def new_promise_def client_write_def Let_def)
qed

text \<open>
  Claim C5.  On a ready session (authenticated, not authenticating) whose send promise
  is pending, a data event with a buffer whose payload decodes fulfils that promise with
  the decoded payload and changes nothing else.  In particular, \<open>send\<close> on a ready
  session writes the EXEC_COMMAND packet, and the next data event fulfils the promise
  that \<open>send\<close> returned with the payload of the reply.
\<close>

theorem send_fulfils_with_payload:
  "(isAuthenticated s \<longrightarrow> \<not> isAuthenticating s \<longrightarrow> sendResolve s = Some p
      \<longrightarrow> promises s p = Some Pending \<longrightarrow> getPayload b = Inr v
      \<longrightarrow> handleData s b = (s\<lparr>promises := (promises s)(p \<mapsto> Fulfilled (Str v))\<rparr>, None))
   \<and> (isAuthenticated s0 \<longrightarrow> \<not> isAuthenticating s0
      \<longrightarrow> map_option writes (client s0) = Some ws
      \<longrightarrow> fits_int32 command \<longrightarrow> getPayload reply = Inr w
      \<longrightarrow> (let (p0, s1) = send s0 command;
               (s2, e2) = handleData s1 reply
           in (\<exists>commandPacket. createPacket EXEC_COMMAND command = Inr commandPacket
                 \<and> map_option writes (client s1) = Some (ws @ [commandPacket]))
            \<and> e2 = None \<and> promises s2 p0 = Some (Fulfilled (Str w))))"
proof (intro conjI impI)
  assume "isAuthenticated s" "\<not> isAuthenticating s" "sendResolve s = Some p"
    "promises s p = Some Pending" "getPayload b = Inr v"
  then show "handleData s b = (s\<lparr>promises := (promises s)(p \<mapsto> Fulfilled (Str v))\<rparr>, None)"
    by (simp add: handleData_ready)
next
  assume a: "isAuthenticated s0" "\<not> isAuthenticating s0"
    "map_option writes (client s0) = Some ws"
    "fits_int32 command" "getPayload reply = Inr w"
  from a(3) obtain sock where sock: "client s0 = Some sock" "writes sock = ws"
    by auto
  obtain p0 s1 where c: "send s0 command = (p0, s1)"
    by (cases "send s0 command")
  note k = send_authenticated [OF a(1) sock(1) a(4) c]
  from k a(2) have "\<not> isAuthenticating s1" "sendResolve s1 = Some p0"
    "promises s1 p0 = Some Pending"
    by simp_all
  from handleData_ready [OF this a(5)] k sock(2)
  show "let (p0, s1) = send s0 command;
               (s2, e2) = handleData s1 reply
           in (\<exists>commandPacket. createPacket EXEC_COMMAND command = Inr commandPacket
                 \<and> map_option writes (client s1) = Some (ws @ [commandPacket]))
            \<and> e2 = None \<and> promises s2 p0 = Some (Fulfilled (Str w))"
    by (auto simp add: c Let_def)
qed

theorem send_fulfils_with_payload_witness:
  "isAuthenticated session_sent \<and> \<not> isAuthenticating session_sent
   \<and> sendResolve session_sent = Some 1 \<and> promises session_sent 1 = Some Pending
   \<and> getPayload reply_info = Inr (lit ''info-response'')
   \<and> isAuthenticated session_ready \<and> \<not> isAuthenticating session_ready
   \<and> map_option writes (client session_ready)
        = Some [[16, 0, 0, 0, 57, 5, 0, 0, 3, 0, 0, 0, 115, 101, 99, 114, 101, 116, 0, 0]]
   \<and> fits_int32 (lit ''info'')
   \<and> handleData session_sent reply_info
        = (session_sent\<lparr>promises := (promises session_sent)
              (1 \<mapsto> Fulfilled (Str (lit ''info-response'')))\<rparr>, None)
   \<and> (let (p0, s1) = send session_ready (lit ''info'');
           (s2, e2) = handleData s1 reply_info
       in (\<exists>commandPacket. createPacket EXEC_COMMAND (lit ''info'') = Inr commandPacket
             \<and> map_option writes (client s1)
                  = Some ([[16, 0, 0, 0, 57, 5, 0, 0, 3, 0, 0, 0, 115, 101, 99, 114, 101, 116, 0, 0]]
                          @ [commandPacket]))
        \<and> e2 = None \<and> promises s2 p0 = Some (Fulfilled (Str (lit ''info-response''))))"
proof -
  have h: "isAuthenticated session_sent" "\<not> isAuthenticating session_sent"
    "sendResolve session_sent = Some 1" "promises session_sent 1 = Some Pending"
    "getPayload reply_info = Inr (lit ''info-response'')"
    "isAuthenticated session_ready" "\<not> isAuthenticating session_ready"
    "map_option writes (client session_ready)
        = Some [[16, 0, 0, 0, 57, 5, 0, 0, 3, 0, 0, 0, 115, 101, 99, 114, 101, 116, 0, 0]]"
    "fits_int32 (lit ''info'')"
    by code_simp+
  from h send_fulfils_with_payload [where s = session_sent and p = 1 and b = reply_info
      and v = "lit ''info-response''" and ?s0.0 = session_ready
      and ws = "[[16, 0, 0, 0, 57, 5, 0, 0, 3, 0, 0, 0, 115, 101, 99, 114, 101, 116, 0, 0]]"
      and command = "lit ''info''" and reply = reply_info and w = "lit ''info-response''"]
  show ?thesis
    by blast
qed

text \<open>
  Claim C6 as stated fails on a session that never connected: the promise is rejected,
  but there is no socket, before or after, that the packet could be written to.
\<close>

theorem send_never_connected_writes_nothing:
  "\<not> isAuthenticated RCON \<and> client RCON = None
   \<and> client (snd (send RCON (lit ''info''))) = None
   \<and> promises (snd (send RCON (lit ''info''))) (fst (send RCON (lit ''info'')))
        = Some (Rejected (Str (lit ''RCON client not authenticated'')))"
  by code_simp

text \<open>
  Claim C6, as amended.  On a session that is not authenticated, \<open>send\<close> rejects the
  promise it returns with "RCON client not authenticated".  When the session has a
  socket the EXEC_COMMAND packet is written to it all the same; when it has none,
  nothing is written.
\<close>

theorem send_unauthenticated_rejects_and_writes:
  assumes "\<not> isAuthenticated s" and "fits_int32 command"
  shows "promises (snd (send s command)) (fst (send s command))
           = Some (Rejected (Str (lit ''RCON client not authenticated'')))
     \<and> (case client s of
           None \<Rightarrow> client (snd (send s command)) = None
         | Some sock \<Rightarrow>
             (\<exists>commandPacket. createPacket EXEC_COMMAND command = Inr commandPacket
                \<and> client (snd (send s command))
                     = Some (sock\<lparr>writes := writes sock @ [commandPacket]\<rparr>)))"
proof -
  have t: "is_int32 EXEC_COMMAND"
    by (simp add: is_int32_def EXEC_COMMAND_def)
  obtain pkt where pkt: "createPacket EXEC_COMMAND command = Inr pkt"
    using createPacket_ok [OF t assms(2)] by simp
  show ?thesis
    using assms(1) pkt
    by (auto simp: send_def new_promise_def client_write_def reject_promise_def Let_def
        split: option.splits)
qed

theorem send_unauthenticated_rejects_and_writes_witness:
  "\<not> isAuthenticated session_authenticating \<and> fits_int32 (lit ''info'')
   \<and> promises (snd (send session_authenticating (lit ''info'')))
        (fst (send session_authenticating (lit ''info'')))
        = Some (Rejected (Str (lit ''RCON client not authenticated'')))
   \<and> (case client session_authenticating of
         None \<Rightarrow> client (snd (send session_authenticating (lit ''info''))) = None
       | Some sock \<Rightarrow>
           (\<exists>commandPacket. createPacket EXEC_COMMAND (lit ''info'') = Inr commandPacket
              \<and> client (snd (send session_authenticating (lit ''info'')))
                   = Some (sock\<lparr>writes := writes sock @ [commandPacket]\<rparr>)))"
proof -
  have h: "\<not> isAuthenticated session_authenticating" "fits_int32 (lit ''info'')"
    by code_simp+
  from h send_unauthenticated_rejects_and_writes [OF h] show ?thesis
    by blast
qed

text \<open>
  Claim C7 at a session that never connected: \<open>client\<close> is \<open>null\<close>, so
  \<open>client.destroy()\<close> raises a \<open>TypeError\<close> inside the promise executor and the promise
  that \<open>disconnect\<close> returns is rejected with it.
\<close>

theorem disconnect_never_connected_rejects:
  "client RCON = None
   \<and> promises (snd (disconnect RCON)) (fst (disconnect RCON)) = Some (Rejected (Exn TypeError))
   \<and> client (snd (disconnect RCON)) = None"
  by code_simp

text \<open>With a socket, \<open>disconnect\<close> destroys it, clears both flags and fulfils its promise.\<close>

lemma disconnect_with_socket:
  assumes "client s = Some sock"
  shows "disconnect s =
     (nextPromise s,
      s\<lparr>promises := (promises s)(nextPromise s \<mapsto> Fulfilled Undefined),
        nextPromise := nextPromise s + 1,
        client := Some (sock\<lparr>destroyed := True\<rparr>),
        isAuthenticated := False, isAuthenticating := False\<rparr>)"
  using assms by (simp add: disconnect_def new_promise_def resolve_promise_def)

text \<open>
  Claim C8.  With a pending connect promise, an error event rejects that promise with a
  cause string exactly when \<open>errno\<close> is -4078, -3008 or -4039; the three causes are as
  in the source; for any other \<open>errno\<close>, also a missing one, the handler leaves the
  state, and so every promise, as it was.
\<close>

theorem handleError_rejects_iff_mapped:
  "(connectReject s = Some c \<longrightarrow> promises s c = Some Pending
      \<longrightarrow> ((\<exists>cause. promises (fst (handleError s errno)) c = Some (Rejected (Str cause)))
            \<longleftrightarrow> errno \<in> {Some (- 4078), Some (- 3008), Some (- 4039)}))
   \<and> (connectReject s = Some c \<longrightarrow> errno = Some (- 4078)
      \<longrightarrow> handleError s errno
            = (reject_promise c (Str (lit ''Remote host refused connection'')) s, None))
   \<and> (connectReject s = Some c \<longrightarrow> errno = Some (- 3008)
      \<longrightarrow> handleError s errno
            = (reject_promise c (Str (lit ''Unable to connect to remote host'')) s, None))
   \<and> (connectReject s = Some c \<longrightarrow> errno = Some (- 4039)
      \<longrightarrow> handleError s errno
            = (reject_promise c (Str (lit ''Connection to remote host timed out'')) s, None))
   \<and> (errno \<notin> {Some (- 4078), Some (- 3008), Some (- 4039)}
      \<longrightarrow> handleError s errno = (s, None))"
  by (auto simp: handleError_def reject_promise_def)

theorem handleError_rejects_iff_mapped_witness:
  "connectReject session_authenticating = Some 0
   \<and> promises session_authenticating 0 = Some Pending
   \<and> Some (- 4078) \<in> {Some (- 4078), Some (- 3008), Some (- 4039 :: int)}
   \<and> None \<notin> {Some (- 4078), Some (- 3008), Some (- 4039 :: int)}
   \<and> (\<exists>cause. promises (fst (handleError session_authenticating (Some (- 4078)))) 0
          = Some (Rejected (Str cause)))
   \<and> handleError session_authenticating (Some (- 4078))
        = (reject_promise 0 (Str (lit ''Remote host refused connection''))
             session_authenticating, None)
   \<and> handleError session_authenticating None = (session_authenticating, None)"
proof -
  have h: "connectReject session_authenticating = Some 0"
    "promises session_authenticating 0 = Some Pending"
    by code_simp+
  have m: "Some (- 4078) \<in> {Some (- 4078), Some (- 3008), Some (- 4039 :: int)}"
    "None \<notin> {Some (- 4078), Some (- 3008), Some (- 4039 :: int)}"
    by simp_all
  from h m handleError_rejects_iff_mapped [where s = session_authenticating and c = 0 and errno = "Some (- 4078)"]
    handleError_rejects_iff_mapped [where s = session_authenticating and c = 0 and errno = None]
  show ?thesis
    by blast
qed

text \<open>
  Claim C9.  A close event without an error leaves the state as it was, so no promise
  is settled.  A close event with an error rejects a pending send promise with "Unable
  to connect to remote host", and leaves the state as it was when there is no send
  promise or when it is already settled.
\<close>

theorem handleClose_rejects_pending_send:
  "handleClose s False = (s, None)
   \<and> (sendReject s = None \<longrightarrow> handleClose s True = (s, None))
   \<and> (sendReject s = Some p \<longrightarrow> promises s p = Some Pending
      \<longrightarrow> handleClose s True
            = (s\<lparr>promises := (promises s)
                   (p \<mapsto> Rejected (Str (lit ''Unable to connect to remote host'')))\<rparr>, None))
   \<and> (sendReject s = Some p \<longrightarrow> promises s p \<noteq> Some Pending
      \<longrightarrow> handleClose s True = (s, None))"
  by (simp add: handleClose_def reject_promise_def)

theorem handleClose_rejects_pending_send_witness:
  "sendReject session_authenticating = None
   \<and> sendReject session_sent = Some 1 \<and> promises session_sent 1 = Some Pending
   \<and> handleClose session_authenticating False = (session_authenticating, None)
   \<and> handleClose session_authenticating True = (session_authenticating, None)
   \<and> handleClose session_sent True
        = (session_sent\<lparr>promises := (promises session_sent)
               (1 \<mapsto> Rejected (Str (lit ''Unable to connect to remote host'')))\<rparr>, None)"
proof -
  have h: "sendReject session_authenticating = None"
    "sendReject session_sent = Some 1" "promises session_sent 1 = Some Pending"
    by code_simp+
  from h handleClose_rejects_pending_send [where s = session_authenticating and p = 1] handleClose_rejects_pending_send [where s = session_sent and p = 1]
  show ?thesis
    by blast
qed

lemma handleAuthResponse_keeps_send:
  assumes "getId b = Inr i" and "connectResolve s = Some c" and "connectReject s = Some c"
    and "c \<noteq> p"
  shows "snd (handleAuthResponse s b) = None
     \<and> sendResolve (fst (handleAuthResponse s b)) = sendResolve s
     \<and> promises (fst (handleAuthResponse s b)) p = promises s p"
  using assms
  by (simp add: handleAuthResponse_def resolve_promise_def reject_promise_def Let_def)

lemma handleDataResponse_fulfils:
  assumes "sendResolve s = Some p" and "promises s p = Some Pending" and "getPayload b = Inr v"
  shows "handleDataResponse s b = (s\<lparr>promises := (promises s)(p \<mapsto> Fulfilled (Str v))\<rparr>, None)"
  using assms by (simp add: handleDataResponse_def resolve_promise_def)

lemma session_inv_authenticating:
  assumes "session_inv s" and "isAuthenticating s"
  shows "connectResolve s \<noteq> None" and "connectResolve s = connectReject s"
    and "connectResolve s \<noteq> sendResolve s"
  using assms unfolding session_inv_def by blast+

lemma reachable_examples:
  "reachable session_authenticating" "reachable session_ready" "reachable session_sent"
  "reachable session_reconnecting"
proof -
  have c: "\<And>s h w. client (snd (connect s h 27015 w)) \<noteq> None"
    by (simp add: connect_valid_port valid_port_def)
  have "reachable (snd (connect RCON (lit ''127.0.0.1'') 27015 (lit ''secret'')))"
    by (rule reach_connect [OF reach_init])
  from reach_event [OF this c, of EvConnect] show r1: "reachable session_authenticating"
    by (simp add: session_authenticating_def)
  have "client session_authenticating \<noteq> None"
    by code_simp
  from reach_event [OF r1 this, of "EvData reply_ok"] show r2: "reachable session_ready"
    by (simp add: session_ready_def)
  from reach_send [OF r2, of "lit ''info''"] show r3: "reachable session_sent"
    by (simp add: session_sent_def)
  have "reachable (snd (connect (snd (disconnect session_sent))
                                (lit ''127.0.0.1'') 27015 (lit ''secret'')))"
    by (rule reach_connect [OF reach_disconnect [OF r3]])
  from reach_event [OF this c, of EvConnect] show "reachable session_reconnecting"
    by (simp add: session_reconnecting_def)
qed

text \<open>
  Claim C10 as stated fails for a data event whose buffer is too short for its id while
  the session is authenticating.  In \<open>session_reconnecting\<close>, a reachable state with a
  pending send promise, the six bytes of \<open>short_reply\<close> decode to the empty payload, but
  \<open>getId\<close> raises a \<open>RangeError\<close> in \<open>handleAuthResponse\<close>, so \<open>handleDataResponse\<close> is
  not called and the send promise stays pending.
\<close>

theorem handleData_short_buffer_keeps_send_pending:
  "reachable session_reconnecting \<and> isAuthenticating session_reconnecting
   \<and> sendResolve session_reconnecting = Some 1
   \<and> promises session_reconnecting 1 = Some Pending
   \<and> getPayload short_reply = Inr []
   \<and> getId short_reply = Inl RangeError
   \<and> snd (handleData session_reconnecting short_reply) = Some RangeError
   \<and> promises (fst (handleData session_reconnecting short_reply)) 1 = Some Pending"
proof -
  have "isAuthenticating session_reconnecting"
    "sendResolve session_reconnecting = Some 1"
    "promises session_reconnecting 1 = Some Pending"
    "getPayload short_reply = Inr []"
    "getId short_reply = Inl RangeError"
    "snd (handleData session_reconnecting short_reply) = Some RangeError"
    "promises (fst (handleData session_reconnecting short_reply)) 1 = Some Pending"
    by code_simp+
  with reachable_examples(4) show ?thesis
    by simp
qed

text \<open>
  Claim C10, as amended.  In every reachable state with a pending send promise, a data
  event whose buffer decodes (its payload, and its id when the session is
  authenticating) returns normally and fulfils the send promise with the decoded
  payload, whether or not the session is authenticating.
\<close>

theorem handleData_always_resolves_send:
  assumes "reachable s" and "sendResolve s = Some p" and "promises s p = Some Pending"
    and "getPayload b = Inr v" and "isAuthenticating s \<longrightarrow> (\<exists>i. getId b = Inr i)"
  shows "snd (handleData s b) = None
     \<and> promises (fst (handleData s b)) p = Some (Fulfilled (Str v))"
proof (cases "isAuthenticating s")
  case False
  then show ?thesis
    using handleDataResponse_fulfils [OF assms(2,3,4)] by (simp add: handleData_def)
next
  case True
  from assms(1) have inv: "session_inv s"
    by (rule reachable_inv)
  from True assms(5) obtain i where i: "getId b = Inr i"
    by auto
  from inv True have n: "connectResolve s \<noteq> None"
    and e: "connectResolve s = connectReject s"
    and d: "connectResolve s \<noteq> sendResolve s"
    by (rule session_inv_authenticating)+
  from n obtain c where c1: "connectResolve s = Some c"
    by auto
  with e have c2: "connectReject s = Some c"
    by simp
  from d c1 assms(2) have ne: "c \<noteq> p"
    by auto
  obtain s1 e1 where a: "handleAuthResponse s b = (s1, e1)"
    by (cases "handleAuthResponse s b")
  from handleAuthResponse_keeps_send [OF i c1 c2 ne] a assms(2,3)
  have s1: "e1 = None" "sendResolve s1 = Some p" "promises s1 p = Some Pending"
    by simp_all
  from True a s1(1) have "handleData s b = handleDataResponse s1 b"
    by (simp add: handleData_def)
  then show ?thesis
    using handleDataResponse_fulfils [OF s1(2,3) assms(4)] by simp
qed

theorem handleData_always_resolves_send_witness:
  "reachable session_reconnecting \<and> isAuthenticating session_reconnecting
   \<and> sendResolve session_reconnecting = Some 1
   \<and> promises session_reconnecting 1 = Some Pending
   \<and> getPayload reply_info = Inr (lit ''info-response'')
   \<and> getId reply_info = Inr 1337
   \<and> snd (handleData session_reconnecting reply_info) = None
   \<and> promises (fst (handleData session_reconnecting reply_info)) 1
        = Some (Fulfilled (Str (lit ''info-response'')))"
proof -
  have h: "isAuthenticating session_reconnecting"
    "sendResolve session_reconnecting = Some 1"
    "promises session_reconnecting 1 = Some Pending"
    "getPayload reply_info = Inr (lit ''info-response'')"
    "getId reply_info = Inr 1337"
    by code_simp+
  have r: "reachable session_reconnecting"
    by (rule reachable_examples)
  from h(5) have "isAuthenticating session_reconnecting \<longrightarrow> (\<exists>i. getId reply_info = Inr i)"
    by simp
  from handleData_always_resolves_send [OF r h(2) h(3) h(4) this] r h show ?thesis
    by simp
qed

end
